theory Spec2Isabelle
  imports
    Complex_Main
    "HOL-Library.Char_ord"
    "HOL-Library.List_Lexorder"
    "HOL-Library.Product_Lexorder"
begin

section \<open>Floating-point values of the scripts\<close>

text \<open>
  The scripts compute with IEEE doubles (Python \<open>float\<close>, \<open>numpy.float64\<close>).  A double is
  modelled as a real number, one of the two infinities, or NaN.  Arithmetic on the finite
  values is exact real arithmetic: the rounding error of a double operation and overflow are
  not part of the model, and the two signed zeros are one value.  Comparisons with NaN are
  false, as in IEEE arithmetic.
\<close>

datatype npfloat = Fin real | PInf | MInf | NaN

fun np_abs :: "npfloat \<Rightarrow> npfloat" where
  "np_abs (Fin x) = Fin \<bar>x\<bar>"
| "np_abs PInf = PInf"
| "np_abs MInf = PInf"
| "np_abs NaN = NaN"

fun np_less :: "npfloat \<Rightarrow> npfloat \<Rightarrow> bool" where
  "np_less NaN b = False"
| "np_less a NaN = False"
| "np_less (Fin x) (Fin y) = (x < y)"
| "np_less (Fin x) PInf = True"
| "np_less (Fin x) MInf = False"
| "np_less PInf b = False"
| "np_less MInf (Fin y) = True"
| "np_less MInf PInf = True"
| "np_less MInf MInf = False"

definition np_greater :: "npfloat \<Rightarrow> npfloat \<Rightarrow> bool" where
  "np_greater a b = np_less b a"

fun np_eq :: "npfloat \<Rightarrow> npfloat \<Rightarrow> bool" where
  "np_eq NaN b = False"
| "np_eq a NaN = False"
| "np_eq a b = (a = b)"

fun np_isinf :: "npfloat \<Rightarrow> bool" where
  "np_isinf PInf = True"
| "np_isinf MInf = True"
| "np_isinf a = False"

fun np_neg :: "npfloat \<Rightarrow> npfloat" where
  "np_neg (Fin x) = Fin (- x)"
| "np_neg PInf = MInf"
| "np_neg MInf = PInf"
| "np_neg NaN = NaN"

fun np_add :: "npfloat \<Rightarrow> npfloat \<Rightarrow> npfloat" where
  "np_add NaN b = NaN"
| "np_add a NaN = NaN"
| "np_add (Fin x) (Fin y) = Fin (x + y)"
| "np_add (Fin x) b = b"
| "np_add PInf MInf = NaN"
| "np_add MInf PInf = NaN"
| "np_add a b = a"

definition np_sub :: "npfloat \<Rightarrow> npfloat \<Rightarrow> npfloat" where
  "np_sub a b = np_add a (np_neg b)"

text \<open>The sign of a value that is not NaN: \<open>-1\<close>, \<open>0\<close> or \<open>1\<close>.\<close>

fun np_sign :: "npfloat \<Rightarrow> int" where
  "np_sign (Fin x) = (if x < 0 then - 1 else if x = 0 then 0 else 1)"
| "np_sign PInf = 1"
| "np_sign MInf = - 1"
| "np_sign NaN = 0"

definition signed_inf :: "int \<Rightarrow> npfloat" where
  "signed_inf s = (if s = 0 then NaN else if 0 < s then PInf else MInf)"

fun np_mul :: "npfloat \<Rightarrow> npfloat \<Rightarrow> npfloat" where
  "np_mul NaN b = NaN"
| "np_mul a NaN = NaN"
| "np_mul (Fin x) (Fin y) = Fin (x * y)"
| "np_mul a b = signed_inf (np_sign a * np_sign b)"

text \<open>
  Division of doubles does not raise: a finite value over zero is an infinity (NaN for
  \<open>0 / 0\<close>), a finite value over an infinity is zero, and an infinity over an infinity is NaN.
\<close>

fun np_div :: "npfloat \<Rightarrow> npfloat \<Rightarrow> npfloat" where
  "np_div NaN b = NaN"
| "np_div a NaN = NaN"
| "np_div (Fin x) (Fin y) = (if y = 0 then signed_inf (np_sign (Fin x)) else Fin (x / y))"
| "np_div (Fin x) b = Fin 0"
| "np_div a (Fin y) = signed_inf (np_sign a * (if y < 0 then - 1 else 1))"
| "np_div a b = NaN"

text \<open>\<open>numpy.sqrt\<close>: NaN on a negative argument (with a warning, not an exception).\<close>

fun np_sqrt :: "npfloat \<Rightarrow> npfloat" where
  "np_sqrt (Fin x) = (if x < 0 then NaN else Fin (sqrt x))"
| "np_sqrt PInf = PInf"
| "np_sqrt MInf = NaN"
| "np_sqrt NaN = NaN"

text \<open>
  \<open>round(x, 2)\<close>: rounding to two decimals, a tie going to the even neighbour; infinities
  and NaN are returned unchanged.
\<close>

definition rint :: "real \<Rightarrow> int" where
  "rint x =
     (let f = \<lfloor>x\<rfloor>; d = x - of_int f
      in if d < 1 / 2 then f
         else if 1 / 2 < d then f + 1
         else if even f then f else f + 1)"

definition round2 :: "real \<Rightarrow> real" where
  "round2 x = of_int (rint (x * 100)) / 100"

fun np_round2 :: "npfloat \<Rightarrow> npfloat" where
  "np_round2 (Fin x) = Fin (round2 x)"
| "np_round2 a = a"

section \<open>The significance functions of \<open>correlation_significance.py\<close>\<close>

text \<open>
  \<open>calculate_t_statistic(r, n)\<close>; the \<open>print\<close> at its start has no effect on the result.
\<close>

definition calculate_t_statistic :: "npfloat \<Rightarrow> int \<Rightarrow> npfloat" where
  "calculate_t_statistic r n =
     (if np_eq (np_abs r) (Fin 1) then (if np_greater r (Fin 0) then PInf else MInf)
      else np_mul r
             (np_sqrt (np_div (Fin (of_int (n - 2))) (np_sub (Fin 1) (np_mul r r)))))"

text \<open>
  \<open>get_p_value(t, df)\<close>.  The cumulative distribution function of Student's t distribution
  is \<open>scipy.stats.t.cdf\<close>, a library function: it is the parameter \<open>cdf\<close> here.
\<close>

definition get_p_value :: "(npfloat \<Rightarrow> int \<Rightarrow> npfloat) \<Rightarrow> npfloat \<Rightarrow> int \<Rightarrow> npfloat" where
  "get_p_value cdf t df =
     (if np_isinf t then Fin 0
      else np_mul (Fin 2) (np_sub (Fin 1) (cdf (np_abs t) df)))"

definition get_significance :: "npfloat \<Rightarrow> string" where
  "get_significance p =
     (if np_less p (Fin (1 / 1000)) then ''***''
      else if np_less p (Fin (1 / 100)) then ''**''
      else if np_less p (Fin (5 / 100)) then ''*''
      else ''ns'')"

definition get_strength_description :: "npfloat \<Rightarrow> npfloat \<Rightarrow> string" where
  "get_strength_description r p =
     (let abs_r = np_abs r;
          strength =
            (if np_greater abs_r (Fin (70 / 100)) then ''Very strong''
             else if np_greater abs_r (Fin (50 / 100)) then ''Strong''
             else if np_greater abs_r (Fin (30 / 100)) then ''Moderate''
             else ''Weak'');
          direction = (if np_greater r (Fin 0) then ''positive'' else ''negative'');
          significance =
            (if np_less p (Fin (1 / 1000)) then ''highly significant''
             else if np_less p (Fin (1 / 100)) then ''significant''
             else if np_less p (Fin (5 / 100)) then ''marginally significant''
             else ''not significant'')
      in strength @ '' '' @ direction @ '' correlation, '' @ significance)"

text \<open>
  Student's t distribution with one degree of freedom is the Cauchy distribution, whose
  cumulative distribution function is \<open>1/2 + arctan t / \<pi>\<close>: an instance of the parameter
  \<open>cdf\<close> on which \<open>get_p_value\<close> can be evaluated.
\<close>

definition student_t1_cdf :: "npfloat \<Rightarrow> int \<Rightarrow> npfloat" where
  "student_t1_cdf t df =
     (case t of Fin x \<Rightarrow> Fin (1 / 2 + arctan x / pi) | PInf \<Rightarrow> Fin 1 | MInf \<Rightarrow> Fin 0
      | NaN \<Rightarrow> NaN)"

section \<open>The long table and the segment extractors\<close>

text \<open>
  A row of the long indicator table, with the columns the scripts read.  The type of the
  cells \<open>value\<close>, \<open>se\<close> and \<open>N\<close> is a parameter: the pivoting scripts coerce them to numbers
  first (a missing number is \<open>None\<close>), \<open>analysis.py\<close> reads them as they are in the file.
\<close>

record 'v indicator_record =
  cut :: string
  subcut :: string
  indicator :: string
  val :: 'v
  se :: 'v
  N :: 'v

datatype py_error = KeyError "string list" | ValueError

text \<open>
  \<open>get_value(cut, subcut, indicator)\<close> of \<open>analysis.py\<close>; the global table \<open>df\<close> is the first
  argument.  The result \<open>None\<close> is Python's \<open>None\<close>.
\<close>

definition get_value :: "'v indicator_record list \<Rightarrow> string \<Rightarrow> string \<Rightarrow> string \<Rightarrow> 'v option" where
  "get_value df c s i =
     (let row =
        (if c = ''All'' \<and> s = ''All''
         then filter (\<lambda>x. cut x = ''All'' \<and> subcut x = ''All'' \<and> indicator x = i) df
         else filter (\<lambda>x. cut x = c \<and> subcut x = s \<and> indicator x = i) df)
      in case row of [] \<Rightarrow> None | x # _ \<Rightarrow> Some (val x))"

text \<open>
  \<open>extract_metrics(df, indicators, cut, subcut)\<close> of \<open>analyze_data.py\<close>: the matching rows,
  projected to the columns \<open>indicator\<close>, \<open>value\<close>, \<open>se\<close>, \<open>N\<close>.
\<close>

definition extract_metrics ::
  "'v indicator_record list \<Rightarrow> string list \<Rightarrow> string \<Rightarrow> string
     \<Rightarrow> (string \<times> 'v \<times> 'v \<times> 'v) list" where
  "extract_metrics df indicators c s =
     map (\<lambda>x. (indicator x, val x, se x, N x))
       (filter (\<lambda>x. cut x = c \<and> subcut x = s \<and> indicator x \<in> set indicators) df)"

section \<open>Reshaping the long table into the wide table\<close>

definition corr_indicators :: "string list" where
  "corr_indicators =
     [''t5'', ''t7'', ''t9'', ''perf1'', ''perf2'', ''perf3'',
      ''bready_t1'', ''fin14'', ''bready_fin28'', ''bready_fin31'']"

type_synonym segment_key = "string \<times> string \<times> string"

definition key3 :: "'v indicator_record \<Rightarrow> segment_key" where
  "key3 x = (cut x, subcut x, indicator x)"

text \<open>
  \<open>drop_duplicates(subset=['cut', 'subcut', 'indicator'], keep='first')\<close>: a row is kept
  unless an earlier row has the same key.
\<close>

fun drop_duplicates_seen ::
  "segment_key list \<Rightarrow> 'v indicator_record list \<Rightarrow> 'v indicator_record list" where
  "drop_duplicates_seen seen [] = []"
| "drop_duplicates_seen seen (x # xs) =
     (if key3 x \<in> set seen then drop_duplicates_seen seen xs
      else x # drop_duplicates_seen (key3 x # seen) xs)"

definition drop_duplicates :: "'v indicator_record list \<Rightarrow> 'v indicator_record list" where
  "drop_duplicates df = drop_duplicates_seen [] df"

text \<open>
  The wide table: its indicator columns, and one row per segment.  A cell is a number or
  missing (\<open>None\<close>, the NaN of the data frame).
\<close>

record wide_row =
  w_cut :: string
  w_subcut :: string
  w_cells :: "string \<Rightarrow> real option"

record wide_table =
  columns :: "string list"
  rows :: "wide_row list"

text \<open>
  \<open>pivot(index=['cut', 'subcut'], columns='indicator', values='value')\<close>: pandas raises
  \<open>ValueError\<close> when two rows share index and column; the index and the columns of the
  result are the distinct keys in sorted order; a cell without a row is missing.
\<close>

definition pivot_row :: "real option indicator_record list \<Rightarrow> string \<times> string \<Rightarrow> wide_row" where
  "pivot_row df =
     (\<lambda>(c, s). \<lparr>w_cut = c, w_subcut = s,
                w_cells = (\<lambda>i. case find (\<lambda>x. key3 x = (c, s, i)) df of
                                  None \<Rightarrow> None | Some x \<Rightarrow> val x)\<rparr>)"

definition pivot :: "real option indicator_record list \<Rightarrow> py_error + wide_table" where
  "pivot df =
     (if \<not> distinct (map key3 df) then Inl ValueError
      else Inr \<lparr>columns = sort (remdups (map indicator df)),
                rows = map (pivot_row df) (sort (remdups (map (\<lambda>x. (cut x, subcut x)) df)))\<rparr>)"

text \<open>
  \<open>reset_index()\<close> turns the index into the columns \<open>cut\<close> and \<open>subcut\<close>; pandas raises
  \<open>ValueError\<close> when a column of that name exists already.
\<close>

definition reset_index :: "wide_table \<Rightarrow> py_error + wide_table" where
  "reset_index t =
     (if ''cut'' \<in> set (columns t) \<or> ''subcut'' \<in> set (columns t) then Inl ValueError
      else Inr t)"

text \<open>
  \<open>dropna(how='all', subset=codes)\<close>: \<open>KeyError\<close> when a label of \<open>codes\<close> is not a column;
  otherwise the rows in which every column of \<open>codes\<close> is missing are dropped.  The columns
  \<open>cut\<close> and \<open>subcut\<close> exist after \<open>reset_index\<close> and are never missing.
\<close>

definition dropna_all :: "string list \<Rightarrow> wide_table \<Rightarrow> py_error + wide_table" where
  "dropna_all codes t =
     (let missing =
        filter (\<lambda>i. i \<notin> set (columns t) \<and> i \<noteq> ''cut'' \<and> i \<noteq> ''subcut'') codes
      in if missing \<noteq> [] then Inl (KeyError missing)
         else Inr (t\<lparr>rows :=
                filter (\<lambda>w. \<exists>i \<in> set codes. i = ''cut'' \<or> i = ''subcut'' \<or> w_cells w i \<noteq> None)
                  (rows t)\<rparr>))"

text \<open>
  Lines 56 to 63 of \<open>correlation_significance.py\<close> (84 to 93 of \<open>analyze_data.py\<close>), with the
  list of indicator codes as the parameter \<open>codes\<close>.
\<close>

definition all_groups :: "'v indicator_record list \<Rightarrow> 'v indicator_record list" where
  "all_groups data = filter (\<lambda>x. subcut x \<noteq> '''') data"

definition filtered :: "string list \<Rightarrow> 'v indicator_record list \<Rightarrow> 'v indicator_record list" where
  "filtered codes data =
     drop_duplicates (filter (\<lambda>x. indicator x \<in> set codes) (all_groups data))"

definition reshape ::
  "string list \<Rightarrow> real option indicator_record list \<Rightarrow> py_error + wide_table" where
  "reshape codes data =
     (case pivot (filtered codes data) of Inl e \<Rightarrow> Inl e | Inr t \<Rightarrow> reset_index t)"

text \<open>The same lines followed by the \<open>dropna\<close> of line 66 (line 96 of \<open>analyze_data.py\<close>).\<close>

definition pivot_engine ::
  "string list \<Rightarrow> real option indicator_record list \<Rightarrow> py_error + wide_table" where
  "pivot_engine codes data =
     (case reshape codes data of Inl e \<Rightarrow> Inl e | Inr t \<Rightarrow> dropna_all codes t)"

text \<open>The wide table as the scripts build it, from their own list of codes.\<close>

definition pivoted_of :: "real option indicator_record list \<Rightarrow> py_error + wide_table" where
  "pivoted_of data = pivot_engine corr_indicators data"

text \<open>A row of the long table with a value and no standard error or sample size.\<close>

definition long_row ::
  "string \<Rightarrow> string \<Rightarrow> string \<Rightarrow> real option \<Rightarrow> real option indicator_record" where
  "long_row c s i v = \<lparr>cut = c, subcut = s, indicator = i, val = v, se = None, N = None\<rparr>"

text \<open>One row for each of the ten indicators of the scripts, all in the segment \<open>(Size, s)\<close>.\<close>

definition ten_rows :: "string \<Rightarrow> real option indicator_record list" where
  "ten_rows s = map (\<lambda>i. long_row ''Size'' s i (Some 1)) corr_indicators"

section \<open>The correlation matrix\<close>

text \<open>
  \<open>pivoted[corr_indicators]\<close>: \<open>KeyError\<close> when one of the ten labels is not a column.
\<close>

definition select_indicators :: "wide_table \<Rightarrow> py_error + wide_table" where
  "select_indicators t =
     (let missing = filter (\<lambda>i. i \<notin> set (columns t)) corr_indicators
      in if missing \<noteq> [] then Inl (KeyError missing)
         else Inr (t\<lparr>columns := corr_indicators\<rparr>))"

text \<open>
  \<open>DataFrame.corr()\<close> is the Pearson correlation over pairwise-complete observations, with
  \<open>min_periods = 1\<close>: for the columns \<open>i\<close> and \<open>j\<close> the rows in which both are present are
  taken; the entry is NaN when there is no such row or when the product of the two sums of
  squared deviations is zero.  The diagonal is computed in the same way as every other
  entry.
\<close>

definition complete_pairs :: "wide_table \<Rightarrow> string \<Rightarrow> string \<Rightarrow> (real \<times> real) list" where
  "complete_pairs t i j =
     List.map_filter
       (\<lambda>w. case (w_cells w i, w_cells w j) of (Some x, Some y) \<Rightarrow> Some (x, y) | _ \<Rightarrow> None)
       (rows t)"

definition nancorr :: "(real \<times> real) list \<Rightarrow> npfloat" where
  "nancorr ps =
     (let nobs = length ps
      in if nobs < 1 then NaN
         else
           (let meanx = sum_list (map fst ps) / real nobs;
                meany = sum_list (map snd ps) / real nobs;
                ssqdm_x = sum_list (map (\<lambda>(x, y). (x - meanx)\<^sup>2) ps);
                ssqdm_y = sum_list (map (\<lambda>(x, y). (y - meany)\<^sup>2) ps);
                covxy = sum_list (map (\<lambda>(x, y). (x - meanx) * (y - meany)) ps);
                divisor = sqrt (ssqdm_x * ssqdm_y)
            in if divisor \<noteq> 0 then Fin (covxy / divisor) else NaN))"

definition corr :: "wide_table \<Rightarrow> string \<Rightarrow> string \<Rightarrow> npfloat" where
  "corr t i j = nancorr (complete_pairs t i j)"

text \<open>
  \<open>corr_matrix = pivoted[corr_indicators].corr()\<close> of \<open>correlation_significance.py\<close>.  The
  matrix is read with \<open>corr_matrix.loc[ind1, ind2]\<close> at labels of \<open>corr_indicators\<close> only.
\<close>

definition corr_matrix :: "wide_table \<Rightarrow> py_error + (string \<Rightarrow> string \<Rightarrow> npfloat)" where
  "corr_matrix pivoted =
     (case select_indicators pivoted of Inl e \<Rightarrow> Inl e | Inr t \<Rightarrow> Inr (corr t))"

text \<open>
  \<open>corr_matrix = pivoted[corr_indicators].corr().round(2)\<close> followed by \<open>fillna(0)\<close>, of
  \<open>analyze_data.py\<close>.
\<close>

fun fillna0 :: "npfloat \<Rightarrow> npfloat" where
  "fillna0 NaN = Fin 0"
| "fillna0 a = a"

definition corr_matrix_display :: "wide_table \<Rightarrow> py_error + (string \<Rightarrow> string \<Rightarrow> npfloat)" where
  "corr_matrix_display pivoted =
     (case select_indicators pivoted of
        Inl e \<Rightarrow> Inl e
      | Inr t \<Rightarrow> Inr (\<lambda>i j. fillna0 (np_round2 (corr t i j))))"

text \<open>The values present in one column, in row order.\<close>

definition column_values :: "wide_table \<Rightarrow> string \<Rightarrow> real list" where
  "column_values t i = List.map_filter (\<lambda>w. w_cells w i) (rows t)"

section \<open>The significance tables\<close>

text \<open>The arrow of the relationship descriptions, U+2194, as its three UTF-8 bytes.\<close>

definition arrow :: string where
  "arrow = [CHR 0xE2, CHR 0x86, CHR 0x94]"

definition key_relationships :: "(string \<times> string \<times> string) list" where
  "key_relationships =
     [(''bready_fin28'', ''perf3'', ''E-payment sales '' @ arrow @ '' Productivity growth''),
      (''bready_fin31'', ''perf3'', ''E-payment purchases '' @ arrow @ '' Productivity growth''),
      (''perf1'', ''perf3'', ''Sales growth '' @ arrow @ '' Productivity growth''),
      (''bready_fin28'', ''bready_fin31'', ''E-payment sales '' @ arrow @ '' E-payment purchases''),
      (''bready_fin28'', ''perf1'', ''E-payment sales '' @ arrow @ '' Sales growth''),
      (''t7'', ''t9'', ''Product innovation '' @ arrow @ '' Process innovation''),
      (''t9'', ''fin14'', ''Process innovation '' @ arrow @ '' Bank loan access''),
      (''t5'', ''bready_t1'', ''Website '' @ arrow @ '' Quality certification''),
      (''bready_fin31'', ''perf1'', ''E-payment purchases '' @ arrow @ '' Sales growth''),
      (''t5'', ''perf3'', ''Website '' @ arrow @ '' Productivity growth''),
      (''t5'', ''bready_fin28'', ''Website '' @ arrow @ '' E-payment sales''),
      (''t5'', ''perf2'', ''Website '' @ arrow @ '' Employment growth''),
      (''perf2'', ''perf3'', ''Employment growth '' @ arrow @ '' Productivity growth''),
      (''bready_fin31'', ''perf2'', ''E-payment purchases '' @ arrow @ '' Employment growth''),
      (''t7'', ''perf3'', ''Product innovation '' @ arrow @ '' Productivity growth''),
      (''t7'', ''perf1'', ''Product innovation '' @ arrow @ '' Sales growth''),
      (''t5'', ''t7'', ''Website '' @ arrow @ '' Product innovation'')]"

definition indicator_names :: "(string \<times> string) list" where
  "indicator_names =
     [(''t5'', ''Website adoption''),
      (''t7'', ''Product innovation''),
      (''t9'', ''Process innovation''),
      (''perf1'', ''Sales growth''),
      (''perf2'', ''Employment growth''),
      (''perf3'', ''Productivity growth''),
      (''bready_t1'', ''Quality certification''),
      (''fin14'', ''Bank loan access''),
      (''bready_fin28'', ''E-payment sales''),
      (''bready_fin31'', ''E-payment purchases'')]"

text \<open>A dictionary lookup \<open>d[k]\<close>: \<open>KeyError\<close> when the key is absent.\<close>

definition dict_get :: "(string \<times> string) list \<Rightarrow> string \<Rightarrow> py_error + string" where
  "dict_get d k = (case map_of d k of None \<Rightarrow> Inl (KeyError [k]) | Some v \<Rightarrow> Inr v)"

text \<open>
  The displayed p-value: one of three fixed strings, or the p-value formatted with three
  decimals (\<open>f'{p:.3f}'\<close>), kept here as the number to be formatted.
\<close>

datatype p_text = Literal string | Fixed3 npfloat

record result_row =
  Relationship :: string
  res_r :: npfloat
  t_value :: npfloat
  p_value :: p_text
  p_numeric :: npfloat
  Significance :: string
  Interpretation :: string

text \<open>
  The body of the loop over \<open>key_relationships\<close> (lines 232 to 264); \<open>n\<close> and \<open>df = n - 2\<close> are
  the globals of lines 198 and 199.
\<close>

definition relationship_result ::
  "(npfloat \<Rightarrow> int \<Rightarrow> npfloat) \<Rightarrow> (string \<Rightarrow> string \<Rightarrow> npfloat) \<Rightarrow> int
     \<Rightarrow> string \<times> string \<times> string \<Rightarrow> result_row" where
  "relationship_result cdf cm n =
     (\<lambda>(ind1, ind2, description).
        let df = n - 2;
            r = cm ind1 ind2;
            r = np_round2 r;
            t = calculate_t_statistic r n;
            p = get_p_value cdf t df;
            sig = get_significance p;
            interpretation = get_strength_description r p;
            p_display =
              (if np_less p (Fin (1 / 1000)) then Literal ''<0.001''
               else if np_less p (Fin (1 / 100)) then Literal ''<0.01''
               else if np_less p (Fin (5 / 100)) then Literal ''<0.05''
               else Fixed3 p)
        in \<lparr>Relationship = description, res_r = np_round2 r, t_value = np_round2 t,
            p_value = p_display, p_numeric = p, Significance = sig,
            Interpretation = interpretation\<rparr>)"

text \<open>The list \<open>results\<close> after the loop, with \<open>n = len(pivoted)\<close>.\<close>

definition significance_results ::
  "(npfloat \<Rightarrow> int \<Rightarrow> npfloat) \<Rightarrow> wide_table \<Rightarrow> py_error + result_row list" where
  "significance_results cdf pivoted =
     (case corr_matrix pivoted of
        Inl e \<Rightarrow> Inl e
      | Inr cm \<Rightarrow>
          Inr (map (relationship_result cdf cm (int (length (rows pivoted)))) key_relationships))"

record detailed_row =
  Indicator_1 :: string
  Name_1 :: string
  Indicator_2 :: string
  Name_2 :: string
  det_r :: npfloat
  det_t :: npfloat
  det_p :: npfloat
  det_sig :: string
  det_significant :: string

text \<open>
  The pairs \<open>(ind1, ind2)\<close> of the double loop of lines 403 to 405: the upper triangle, in
  enumeration order.
\<close>

definition upper_pairs :: "string list \<Rightarrow> (string \<times> string) list" where
  "upper_pairs inds =
     concat (map (\<lambda>(i, ind1).
                    map snd (filter (\<lambda>(j, ind2). i < j) (map (\<lambda>(j, ind2). (j, (ind1, ind2)))
                      (enumerate 0 inds))))
                 (enumerate 0 inds))"

text \<open>
  The body of that loop (lines 406 to 422).  \<open>critical_t\<close> is \<open>scipy.stats.t.ppf(0.975, df)\<close>,
  a library function: the parameter \<open>ppf\<close>.
\<close>

definition detailed_result ::
  "(npfloat \<Rightarrow> int \<Rightarrow> npfloat) \<Rightarrow> (real \<Rightarrow> int \<Rightarrow> npfloat) \<Rightarrow> (string \<Rightarrow> string \<Rightarrow> npfloat) \<Rightarrow> int
     \<Rightarrow> string \<times> string \<Rightarrow> py_error + detailed_row" where
  "detailed_result cdf ppf cm n =
     (\<lambda>(ind1, ind2).
        let df = n - 2;
            critical_t = ppf (975 / 1000) df;
            r = cm ind1 ind2;
            r = np_round2 r;
            t = calculate_t_statistic r n;
            p = get_p_value cdf t df;
            sig = get_significance p
        in case dict_get indicator_names ind1 of
             Inl e \<Rightarrow> Inl e
           | Inr name1 \<Rightarrow>
               (case dict_get indicator_names ind2 of
                  Inl e \<Rightarrow> Inl e
                | Inr name2 \<Rightarrow>
                    Inr \<lparr>Indicator_1 = ind1, Name_1 = name1, Indicator_2 = ind2, Name_2 = name2,
                         det_r = np_round2 r, det_t = np_round2 t, det_p = p, det_sig = sig,
                         det_significant =
                           (if np_greater (np_abs t) critical_t then ''Yes'' else ''No'')\<rparr>))"

text \<open>A loop that appends one result per element and stops at the first exception.\<close>

fun collect :: "('a \<Rightarrow> py_error + 'b) \<Rightarrow> 'a list \<Rightarrow> py_error + 'b list" where
  "collect f [] = Inr []"
| "collect f (x # xs) =
     (case f x of
        Inl e \<Rightarrow> Inl e
      | Inr y \<Rightarrow> (case collect f xs of Inl e \<Rightarrow> Inl e | Inr ys \<Rightarrow> Inr (y # ys)))"

definition detailed_results ::
  "(npfloat \<Rightarrow> int \<Rightarrow> npfloat) \<Rightarrow> (real \<Rightarrow> int \<Rightarrow> npfloat) \<Rightarrow> wide_table
     \<Rightarrow> py_error + detailed_row list" where
  "detailed_results cdf ppf pivoted =
     (case corr_matrix pivoted of
        Inl e \<Rightarrow> Inl e
      | Inr cm \<Rightarrow>
          collect (detailed_result cdf ppf cm (int (length (rows pivoted))))
            (upper_pairs corr_indicators))"

section \<open>A wide table of eight segments\<close>

text \<open>
  Eight segments; \<open>t5\<close> is present in all of them, \<open>perf3\<close> in the first five, and the other
  eight indicators in none.
\<close>

definition wide8_row :: "string \<Rightarrow> real option \<Rightarrow> real option \<Rightarrow> wide_row" where
  "wide8_row s x y =
     \<lparr>w_cut = ''Size'', w_subcut = s,
      w_cells = (\<lambda>i. if i = ''t5'' then x else if i = ''perf3'' then y else None)\<rparr>"

definition wide8 :: wide_table where
  "wide8 =
     \<lparr>columns = corr_indicators,
      rows = [wide8_row ''a'' (Some 0) (Some 0), wide8_row ''b'' (Some 1) (Some 1),
              wide8_row ''c'' (Some 1) (Some 2), wide8_row ''d'' (Some 2) (Some 2),
              wide8_row ''e'' (Some 3) (Some 3), wide8_row ''f'' (Some 4) None,
              wide8_row ''g'' (Some 5) None, wide8_row ''h'' (Some 6) None]\<rparr>"

text \<open>
  The quantile function of the same distribution, \<open>tan (\<pi> (q - 1/2))\<close>: an instance of the
  parameter \<open>ppf\<close>.
\<close>

definition student_t1_ppf :: "real \<Rightarrow> int \<Rightarrow> npfloat" where
  "student_t1_ppf q df = Fin (tan (pi * (q - 1 / 2)))"

text \<open>Three segments in which \<open>t5\<close> has the same value.\<close>

definition wide_const :: wide_table where
  "wide_const =
     \<lparr>columns = corr_indicators,
      rows = [wide8_row ''Small'' (Some 40) (Some 3), wide8_row ''Medium'' (Some 40) (Some 6),
              wide8_row ''Large'' (Some 40) (Some 9)]\<rparr>"

section \<open>Properties of the significance functions\<close>

lemma calculate_t_statistic_Fin:
  "calculate_t_statistic (Fin r) n =
     (if r = 1 then PInf
      else if r = - 1 then MInf
      else if (of_int n - 2) / (1 - r\<^sup>2) < 0 then NaN
      else Fin (r * sqrt ((of_int n - 2) / (1 - r\<^sup>2))))"
proof -
  have sq: "r\<^sup>2 = 1 \<longleftrightarrow> \<bar>r\<bar> = 1"
    by (simp add: power2_eq_1_iff abs_if)
  show ?thesis
  proof (cases "\<bar>r\<bar> = 1")
    case True
    then show ?thesis
      by (auto simp: calculate_t_statistic_def np_greater_def abs_if split: if_splits)
  next
    case False
    then have "r \<noteq> 1" "r \<noteq> - 1" "1 - r\<^sup>2 \<noteq> 0"
      using sq by auto
    with False show ?thesis
      by (simp add: calculate_t_statistic_def np_sub_def power2_eq_square)
  qed
qed

text \<open>
  C1.  For a finite coefficient \<open>r\<close> and a sample size \<open>n\<close>, the t-statistic is \<open>+\<infinity>\<close> when
  \<open>r = 1\<close>, \<open>-\<infinity>\<close> when \<open>r = -1\<close>, and otherwise the value of \<open>r * sqrt((n-2) / (1 - r\<^sup>2))\<close>;
  that value is NaN exactly when the argument of the square root is negative.
\<close>

theorem calculate_t_statistic_formula:
  "calculate_t_statistic (Fin r) n =
     (if r = 1 then PInf
      else if r = - 1 then MInf
      else if (of_int n - 2) / (1 - r\<^sup>2) < 0 then NaN
      else Fin (r * sqrt ((of_int n - 2) / (1 - r\<^sup>2))))"
  by (rule calculate_t_statistic_Fin)

theorem calculate_t_statistic_formula_witness:
  "calculate_t_statistic (Fin (6 / 10)) 6 = Fin (3 / 2)
   \<and> calculate_t_statistic (Fin 1) 6 = PInf
   \<and> calculate_t_statistic (Fin (- 1)) 6 = MInf"
proof -
  have "sqrt (25 / 4) = 5 / 2"
    by (rule real_sqrt_unique) (simp_all add: power2_eq_square)
  then show ?thesis
    using calculate_t_statistic_formula [of "6 / 10" 6] calculate_t_statistic_formula [of 1 6]
      calculate_t_statistic_formula [of "- 1" 6]
    by (simp add: power2_eq_square)
qed

text \<open>
  C3.  For a finite t-statistic the p-value is \<open>2 * (1 - cdf(|t|, df))\<close>, whatever the
  distribution function \<open>cdf\<close> is; for an infinite t-statistic it is \<open>0.0\<close>.  The
  coefficients \<open>1.0\<close> and \<open>-1.0\<close> give an infinite t-statistic, hence with \<open>df = n - 2\<close>
  the p-value \<open>0.0\<close> and the tier \<open>***\<close>.
\<close>

theorem get_p_value_two_tailed:
  "get_p_value cdf (Fin t) df = np_mul (Fin 2) (np_sub (Fin 1) (cdf (Fin \<bar>t\<bar>) df))
   \<and> (cdf (Fin \<bar>t\<bar>) df = Fin c \<longrightarrow> get_p_value cdf (Fin t) df = Fin (2 * (1 - c)))
   \<and> get_p_value cdf PInf df = Fin 0
   \<and> get_p_value cdf MInf df = Fin 0
   \<and> get_p_value cdf (calculate_t_statistic (Fin 1) n) (n - 2) = Fin 0
   \<and> get_p_value cdf (calculate_t_statistic (Fin (- 1)) n) (n - 2) = Fin 0
   \<and> get_significance (get_p_value cdf (calculate_t_statistic (Fin 1) n) (n - 2)) = ''***''
   \<and> get_significance (get_p_value cdf (calculate_t_statistic (Fin (- 1)) n) (n - 2)) = ''***''"
  by (simp add: get_p_value_def get_significance_def calculate_t_statistic_def np_greater_def
      np_sub_def)

theorem get_p_value_two_tailed_witness:
  "student_t1_cdf (Fin \<bar>- 1\<bar>) 1 = Fin (3 / 4)
   \<and> get_p_value student_t1_cdf (Fin (- 1)) 1 = Fin (1 / 2)
   \<and> get_significance (get_p_value student_t1_cdf (calculate_t_statistic (Fin 1) 3) (3 - 2)) = ''***''"
proof -
  have c: "student_t1_cdf (Fin \<bar>- 1\<bar>) 1 = Fin (3 / 4)"
    by (simp add: student_t1_cdf_def arctan_one)
  have "get_p_value student_t1_cdf (Fin (- 1)) 1 = Fin (2 * (1 - 3 / 4))"
    using get_p_value_two_tailed [of student_t1_cdf "- 1" 1 "3 / 4" 3] c by blast
  moreover have "get_significance
      (get_p_value student_t1_cdf (calculate_t_statistic (Fin 1) 3) (3 - 2)) = ''***''"
    using get_p_value_two_tailed [of student_t1_cdf "- 1" 1 "3 / 4" 3] by blast
  ultimately show ?thesis using c by simp
qed

text \<open>
  C6.  The interpretation string is \<open>strength direction "correlation," phrase\<close>: the strength
  is \<open>Very strong\<close> above \<open>0.70\<close>, \<open>Strong\<close> in \<open>(0.50, 0.70]\<close>, \<open>Moderate\<close> in
  \<open>(0.30, 0.50]\<close> and \<open>Weak\<close> otherwise, by \<open>|r|\<close>; the direction is \<open>positive\<close> for
  \<open>r > 0\<close> and \<open>negative\<close> otherwise, also at \<open>r = 0\<close>; the phrase follows the p-value
  thresholds \<open>0.001\<close>, \<open>0.01\<close> and \<open>0.05\<close>.
\<close>

theorem get_strength_description_text:
  "get_strength_description (Fin r) (Fin p) =
     (if 70 / 100 < \<bar>r\<bar> then ''Very strong''
      else if 50 / 100 < \<bar>r\<bar> \<and> \<bar>r\<bar> \<le> 70 / 100 then ''Strong''
      else if 30 / 100 < \<bar>r\<bar> \<and> \<bar>r\<bar> \<le> 50 / 100 then ''Moderate''
      else ''Weak'')
     @ '' '' @ (if 0 < r then ''positive'' else ''negative'') @ '' correlation, ''
     @ (if p < 1 / 1000 then ''highly significant''
        else if p < 1 / 100 then ''significant''
        else if p < 5 / 100 then ''marginally significant''
        else ''not significant'')"
  by (simp add: get_strength_description_def np_greater_def Let_def)

theorem get_strength_description_text_witness:
  "get_strength_description (Fin (6 / 10)) (Fin (2 / 100))
     = ''Strong positive correlation, marginally significant''
   \<and> get_strength_description (Fin 0) (Fin 1) = ''Weak negative correlation, not significant''"
  using get_strength_description_text [of "6 / 10" "2 / 100"]
    get_strength_description_text [of 0 1]
  by simp

section \<open>Properties of the reshaping\<close>

lemma set_drop_duplicates_seen: "set (drop_duplicates_seen seen xs) \<subseteq> set xs"
  by (induction xs arbitrary: seen) auto



lemma find_drop_duplicates_seen:
  "k \<notin> set seen \<Longrightarrow>
   find (\<lambda>x. key3 x = k) (drop_duplicates_seen seen xs) = find (\<lambda>x. key3 x = k) xs"
  by (induction xs arbitrary: seen) auto

lemma find_filter_key:
  "(\<And>x. x \<in> set xs \<Longrightarrow> key3 x = k \<Longrightarrow> Q x) \<Longrightarrow>
   find (\<lambda>x. key3 x = k) (filter Q xs) = find (\<lambda>x. key3 x = k) xs"
  by (induction xs) auto

lemma set_filtered: "set (filtered codes data) \<subseteq> {x \<in> set data. indicator x \<in> set codes \<and> subcut x \<noteq> ''''}"
  using set_drop_duplicates_seen [of "[]"]
  by (fastforce simp: filtered_def all_groups_def drop_duplicates_def)


lemma find_filtered:
  assumes "i \<in> set codes" "s \<noteq> ''''"
  shows "find (\<lambda>x. key3 x = (c, s, i)) (filtered codes data)
         = find (\<lambda>x. key3 x = (c, s, i)) data"
proof -
  have "find (\<lambda>x. key3 x = (c, s, i)) (all_groups data) = find (\<lambda>x. key3 x = (c, s, i)) data"
    unfolding all_groups_def using assms by (intro find_filter_key) (auto simp: key3_def)
  moreover have "find (\<lambda>x. key3 x = (c, s, i))
       (filter (\<lambda>x. indicator x \<in> set codes) (all_groups data))
          = find (\<lambda>x. key3 x = (c, s, i)) (all_groups data)"
    using assms by (intro find_filter_key) (auto simp: key3_def)
  ultimately show ?thesis
    by (simp add: filtered_def drop_duplicates_def find_drop_duplicates_seen)
qed


lemma reshape_rows:
  assumes "reshape codes data = Inr t"
  shows "rows t = map (pivot_row (filtered codes data))
                    (sort (remdups (map (\<lambda>x. (cut x, subcut x)) (filtered codes data))))"
  using assms
  by (auto simp: reshape_def pivot_def reset_index_def pivot_row_def split: if_splits sum.splits)

lemma reshape_row_cell:
  assumes "reshape codes data = Inr t" "w \<in> set (rows t)"
  shows "w_cells w i =
           (case find (\<lambda>y. key3 y = (w_cut w, w_subcut w, i)) (filtered codes data) of
              None \<Rightarrow> None | Some y \<Rightarrow> val y)"
  using assms by (auto simp: reshape_rows pivot_row_def)



text \<open>
  C5.  In the output of the pivot engine every row has a non-missing value for at least one
  requested code.  A segment has no row in the output when all its input rows for the
  requested codes have a missing value, and also when, for every requested code, the first
  input row of the segment with that code (the one the deduplication keeps) has a missing
  value or does not exist.
\<close>

theorem pivot_engine_drops_all_missing:
  assumes t: "pivot_engine codes data = Inr t"
    and codes: "''cut'' \<notin> set codes" "''subcut'' \<notin> set codes"
  shows "(\<forall>w \<in> set (rows t). \<exists>i \<in> set codes. w_cells w i \<noteq> None)
       \<and> (\<forall>c s. (\<forall>x \<in> set data. cut x = c \<and> subcut x = s \<and> indicator x \<in> set codes
                      \<longrightarrow> val x = None)
              \<longrightarrow> (\<forall>w \<in> set (rows t). \<not> (w_cut w = c \<and> w_subcut w = s)))
       \<and> (\<forall>c s. (\<forall>i \<in> set codes. \<forall>x. find (\<lambda>x. key3 x = (c, s, i)) data = Some x
                      \<longrightarrow> val x = None)
              \<longrightarrow> (\<forall>w \<in> set (rows t). \<not> (w_cut w = c \<and> w_subcut w = s)))"
proof -
  from t obtain t0 where t0: "reshape codes data = Inr t0" and d: "dropna_all codes t0 = Inr t"
    by (auto simp: pivot_engine_def split: sum.splits)
  from d have rows: "rows t = filter (\<lambda>w. \<exists>i \<in> set codes. i = ''cut'' \<or> i = ''subcut'' \<or> w_cells w i \<noteq> None) (rows t0)"
    by (auto simp: dropna_all_def Let_def split: if_splits)
  have some: "\<forall>w \<in> set (rows t). \<exists>i \<in> set codes. w_cells w i \<noteq> None"
    using codes unfolding rows by auto
  have kept: "\<exists>i \<in> set codes. \<exists>y. find (\<lambda>y. key3 y = (c, s, i)) data = Some y \<and> val y \<noteq> None"
    if w: "w \<in> set (rows t)" and seg: "w_cut w = c \<and> w_subcut w = s" for c s w
  proof -
    from some w obtain i where i: "i \<in> set codes" "w_cells w i \<noteq> None" by blast
    from w have "w \<in> set (rows t0)" unfolding rows by simp
    from reshape_row_cell [OF t0 this, of i] i seg
    obtain y where y: "find (\<lambda>y. key3 y = (c, s, i)) (filtered codes data) = Some y"
      "val y \<noteq> None"
      by (auto split: option.splits)
    then have "y \<in> set (filtered codes data)" "key3 y = (c, s, i)"
      by (auto simp: find_Some_iff)
    with set_filtered [of codes data] have "s \<noteq> ''''"
      by (auto simp: key3_def)
    from find_filtered [OF i(1) this, of c data] y
    have "find (\<lambda>y. key3 y = (c, s, i)) data = Some y" by simp
    with i(1) y(2) show ?thesis by blast
  qed
  have first: "\<forall>w \<in> set (rows t). \<not> (w_cut w = c \<and> w_subcut w = s)"
    if "\<forall>i \<in> set codes. \<forall>x. find (\<lambda>x. key3 x = (c, s, i)) data = Some x \<longrightarrow> val x = None"
    for c s
  proof (intro ballI notI)
    fix w
    assume "w \<in> set (rows t)" "w_cut w = c \<and> w_subcut w = s"
    from kept [OF this] obtain i y where i: "i \<in> set codes"
      and y: "find (\<lambda>y. key3 y = (c, s, i)) data = Some y" "val y \<noteq> None"
      by blast
    from that i have "\<forall>x. find (\<lambda>x. key3 x = (c, s, i)) data = Some x \<longrightarrow> val x = None"
      by (rule bspec)
    then have "find (\<lambda>x. key3 x = (c, s, i)) data = Some y \<longrightarrow> val y = None"
      by (rule spec)
    from this y(1) have "val y = None" by (rule mp)
    with y(2) show False by contradiction
  qed
  have every: "\<forall>w \<in> set (rows t). \<not> (w_cut w = c \<and> w_subcut w = s)"
    if miss: "\<forall>x \<in> set data. cut x = c \<and> subcut x = s \<and> indicator x \<in> set codes \<longrightarrow> val x = None"
    for c s
  proof (rule first, intro ballI allI impI)
    fix i x
    assume "i \<in> set codes" "find (\<lambda>x. key3 x = (c, s, i)) data = Some x"
    then have "x \<in> set data" "cut x = c" "subcut x = s" "indicator x \<in> set codes"
      by (auto simp: find_Some_iff key3_def)
    with miss show "val x = None" by blast
  qed
  have e: "\<forall>c s. (\<forall>x \<in> set data. cut x = c \<and> subcut x = s \<and> indicator x \<in> set codes
                      \<longrightarrow> val x = None)
              \<longrightarrow> (\<forall>w \<in> set (rows t). \<not> (w_cut w = c \<and> w_subcut w = s))"
    by (intro allI impI) (rule every)
  have f: "\<forall>c s. (\<forall>i \<in> set codes. \<forall>x. find (\<lambda>x. key3 x = (c, s, i)) data = Some x
                      \<longrightarrow> val x = None)
              \<longrightarrow> (\<forall>w \<in> set (rows t). \<not> (w_cut w = c \<and> w_subcut w = s))"
    by (intro allI impI) (rule first)
  from some e f show ?thesis by (intro conjI)
qed

theorem pivot_engine_drops_all_missing_witness:
  "(case pivot_engine [''X'', ''Y'']
          [long_row ''Size'' ''Small'' ''X'' (Some 1), long_row ''A'' ''B'' ''Y'' (Some 2),
           long_row ''A'' ''B'' ''X'' None, long_row ''Size'' ''Large'' ''X'' None] of
      Inl e \<Rightarrow> []
    | Inr t \<Rightarrow> map (\<lambda>w. (w_cut w, w_subcut w, w_cells w ''X'', w_cells w ''Y'')) (rows t))
   = [(''A'', ''B'', None, Some 2), (''Size'', ''Small'', Some 1, None)]
   \<and> (case pivoted_of (ten_rows ''Small'' @ [long_row ''Size'' ''Large'' ''t5'' None]) of
      Inl e \<Rightarrow> []
    | Inr t \<Rightarrow> map (\<lambda>w. (w_cut w, w_subcut w, w_cells w ''t5'', w_cells w ''fin14'')) (rows t))
   = [(''Size'', ''Small'', Some 1, Some 1)]"
proof -
  let ?data = "[long_row ''Size'' ''Small'' ''X'' (Some 1), long_row ''A'' ''B'' ''Y'' (Some 2),
           long_row ''A'' ''B'' ''X'' None, long_row ''Size'' ''Large'' ''X'' None]"
  have h1: "''cut'' \<notin> set [''X'', ''Y'']" and h2: "''subcut'' \<notin> set [''X'', ''Y'']"
    by simp_all
  obtain t where t: "pivot_engine [''X'', ''Y''] ?data = Inr t"
    by (simp add: pivot_engine_def reshape_def filtered_def all_groups_def drop_duplicates_def
        pivot_def pivot_row_def reset_index_def dropna_all_def key3_def long_row_def
        less_eq_char_def less_char_def)
  have 1: "(case pivot_engine [''X'', ''Y''] ?data of
      Inl e \<Rightarrow> []
    | Inr t \<Rightarrow> map (\<lambda>w. (w_cut w, w_subcut w, w_cells w ''X'', w_cells w ''Y'')) (rows t))
   = [(''A'', ''B'', None, Some 2), (''Size'', ''Small'', Some 1, None)]"
    using pivot_engine_drops_all_missing [OF t h1 h2]
    by (simp add: pivot_engine_def reshape_def filtered_def all_groups_def drop_duplicates_def
        pivot_def pivot_row_def reset_index_def dropna_all_def key3_def long_row_def
        less_eq_char_def less_char_def)
  have 2: "(case pivoted_of (ten_rows ''Small'' @ [long_row ''Size'' ''Large'' ''t5'' None]) of
      Inl e \<Rightarrow> []
    | Inr t \<Rightarrow> map (\<lambda>w. (w_cut w, w_subcut w, w_cells w ''t5'', w_cells w ''fin14'')) (rows t))
   = [(''Size'', ''Small'', Some 1, Some 1)]"
    by (simp add: pivoted_of_def pivot_engine_def reshape_def filtered_def all_groups_def
        drop_duplicates_def pivot_def pivot_row_def reset_index_def dropna_all_def key3_def
        long_row_def ten_rows_def corr_indicators_def less_eq_char_def less_char_def)
  from 1 2 show ?thesis by simp
qed

text \<open>
  C9.  When the table has no row for \<open>(cut, subcut, indicator)\<close>, \<open>get_value\<close> returns \<open>None\<close>
  and the result of \<open>extract_metrics\<close> has no row for that indicator: no zero is made up and
  no error is raised.
\<close>

theorem extractors_missing_row:
  assumes "\<forall>x \<in> set df. \<not> (cut x = c \<and> subcut x = s \<and> indicator x = i)"
  shows "get_value df c s i = None \<and> i \<notin> fst ` set (extract_metrics df inds c s)"
proof -
  have "filter (\<lambda>x. cut x = c \<and> subcut x = s \<and> indicator x = i) df = []"
    using assms by (simp add: filter_empty_conv)
  then have "get_value df c s i = None"
    by (auto simp: get_value_def)
  moreover have "i \<notin> fst ` set (extract_metrics df inds c s)"
    using assms by (auto simp: extract_metrics_def)
  ultimately show ?thesis by simp
qed

theorem extractors_missing_row_witness:
  "get_value
     [long_row ''Size'' ''Small (5-19)'' ''bready_t1'' (Some 12),
      long_row ''Size'' ''Large (100+)'' ''t5'' (Some 90)]
     ''Size'' ''Large (100+)'' ''bready_t1'' = None
   \<and> extract_metrics
     [long_row ''Size'' ''Small (5-19)'' ''bready_t1'' (Some 12),
      long_row ''Size'' ''Large (100+)'' ''t5'' (Some 90)]
     [''bready_t1''] ''Size'' ''Large (100+)'' = []"
proof -
  let ?df = "[long_row ''Size'' ''Small (5-19)'' ''bready_t1'' (Some 12),
      long_row ''Size'' ''Large (100+)'' ''t5'' (Some 90)]"
  have h: "\<forall>x \<in> set ?df. \<not> (cut x = ''Size'' \<and> subcut x = ''Large (100+)'' \<and> indicator x = ''bready_t1'')"
    by (simp add: long_row_def)
  show ?thesis
    using extractors_missing_row [OF h, of "[''bready_t1'']"]
    by (simp add: extract_metrics_def long_row_def)
qed

section \<open>Properties of the correlation matrix and of the significance tables\<close>

lemma map_filter_pairs_swap:
  "List.map_filter
     (\<lambda>w. case (f w, g w) of (Some x, Some y) \<Rightarrow> Some (x, y) | _ \<Rightarrow> None) ws
   = map prod.swap
       (List.map_filter
          (\<lambda>w. case (g w, f w) of (Some x, Some y) \<Rightarrow> Some (x, y) | _ \<Rightarrow> None) ws)"
  by (induction ws) (auto simp: map_filter_simps split: option.splits)

lemma complete_pairs_swap:
  "complete_pairs t j i = map prod.swap (complete_pairs t i j)"
  unfolding complete_pairs_def by (rule map_filter_pairs_swap)

lemma sum_list_swap:
  "sum_list (map (\<lambda>(x, y). h x y) (map prod.swap ps)) = sum_list (map (\<lambda>(x, y). h y x) ps)"
  by (simp add: comp_def split_def)

lemma nancorr_swap: "nancorr (map prod.swap ps) = nancorr ps"
proof -
  have f: "sum_list (map fst (map prod.swap ps)) = sum_list (map snd ps)"
    and g: "sum_list (map snd (map prod.swap ps)) = sum_list (map fst ps)"
    by (simp_all add: comp_def)
  show ?thesis
    by (simp only: nancorr_def Let_def length_map f g sum_list_swap mult.commute)
qed

lemma map_filter_diag:
  "List.map_filter
     (\<lambda>w. case (f w, f w) of (Some x, Some y) \<Rightarrow> Some (x, y) | _ \<Rightarrow> None) ws
   = map (\<lambda>x. (x, x)) (List.map_filter f ws)"
  by (induction ws) (auto simp: map_filter_simps split: option.splits)

lemma complete_pairs_diag: "complete_pairs t i i = map (\<lambda>x. (x, x)) (column_values t i)"
  unfolding complete_pairs_def column_values_def by (rule map_filter_diag)

lemma sum_sq_zero_iff:
  "sum_list (map (\<lambda>x. (x - m)\<^sup>2) xs) = 0 \<longleftrightarrow> (\<forall>x \<in> set xs. x = m)" for m :: real
proof -
  have "sum_list (map (\<lambda>x. (x - m)\<^sup>2) xs) = 0
          \<longleftrightarrow> (\<forall>y \<in> set (map (\<lambda>x. (x - m)\<^sup>2) xs). y = 0)"
    by (rule sum_list_nonneg_eq_0_iff) auto
  then show ?thesis by simp
qed

lemma mean_of_equal:
  fixes xs :: "real list"
  assumes "xs \<noteq> []" "\<forall>x \<in> set xs. \<forall>y \<in> set xs. x = y"
  shows "\<forall>x \<in> set xs. x = sum_list xs / real (length xs)"
proof -
  obtain a where a: "\<forall>x \<in> set xs. x = a"
    using assms by (cases xs) auto
  then have "xs = replicate (length xs) a"
    by (simp add: replicate_length_same)
  then have "sum_list xs = real (length xs) * a"
    by (metis sum_list_replicate mult.commute)
  with assms(1) a show ?thesis by simp
qed

lemma nancorr_diag:
  "nancorr (map (\<lambda>x. (x, x)) xs)
     = (if \<exists>x \<in> set xs. \<exists>y \<in> set xs. x \<noteq> y then Fin 1 else NaN)"
proof (cases "xs = []")
  case True
  then show ?thesis by (simp add: nancorr_def)
next
  case False
  define m where "m = sum_list xs / real (length xs)"
  define S where "S = sum_list (map (\<lambda>x. (x - m)\<^sup>2) xs)"
  have S0: "0 \<le> S" unfolding S_def by (rule sum_list_nonneg) auto
  have eq: "nancorr (map (\<lambda>x. (x, x)) xs) = (if sqrt (S * S) \<noteq> 0 then Fin (S / sqrt (S * S)) else NaN)"
    using False
    by (simp add: nancorr_def Let_def comp_def m_def S_def power2_eq_square)
  have sq: "sqrt (S * S) = S" using S0 by simp
  show ?thesis
  proof (cases "\<exists>x \<in> set xs. \<exists>y \<in> set xs. x \<noteq> y")
    case True
    then have "\<not> (\<forall>x \<in> set xs. x = m)" by metis
    then have "S \<noteq> 0" unfolding S_def by (simp add: sum_sq_zero_iff)
    with True S0 show ?thesis by (simp add: eq)
  next
    case F: False
    then have "\<forall>x \<in> set xs. x = m"
      unfolding m_def using mean_of_equal [OF False] by blast
    then have "S = 0" unfolding S_def by (simp add: sum_sq_zero_iff)
    with F show ?thesis by (simp add: eq)
  qed
qed


lemma rint_of_int: "rint (of_int k) = k"
  by (simp add: rint_def)

lemma round2_idem: "round2 (round2 x) = round2 x"
  by (simp add: round2_def rint_of_int)

lemma np_round2_idem: "np_round2 (np_round2 a) = np_round2 a"
  by (cases a) (simp_all add: round2_idem)

lemma rint_near:
  assumes "of_int k - 1 / 2 < x" "x < of_int k + 1 / 2"
  shows "rint x = k"
proof (cases "of_int k \<le> x")
  case True
  with assms have "\<lfloor>x\<rfloor> = k" by linarith
  with assms show ?thesis by (simp add: rint_def)
next
  case False
  with assms have f: "\<lfloor>x\<rfloor> = k - 1" by linarith
  with assms show ?thesis by (simp add: rint_def)
qed

lemma complete_pairs_wide8:
  "complete_pairs wide8 ''t5'' ''perf3'' = [(0, 0), (1, 1), (1, 2), (2, 2), (3, 3)]"
  by (simp add: complete_pairs_def wide8_def wide8_row_def map_filter_simps)

lemma corr_wide8: "corr wide8 ''t5'' ''perf3'' = Fin (12 / 13)"
proof -
  have s: "sqrt (676 / 25) = 26 / 5"
    by (rule real_sqrt_unique) (simp_all add: power2_eq_square)
  show ?thesis
    by (simp add: corr_def complete_pairs_wide8 nancorr_def Let_def power2_eq_square s)
qed

lemma round2_12_13: "round2 (12 / 13) = 23 / 25"
proof -
  have "rint (12 / 13 * 100) = 92"
    by (rule rint_near) simp_all
  then show ?thesis by (simp add: round2_def)
qed

lemma t_wide8: "calculate_t_statistic (Fin (23 / 25)) 8 = Fin (23 / 4)"
proof -
  have s: "sqrt (625 / 16) = 25 / 4"
    by (rule real_sqrt_unique) (simp_all add: power2_eq_square)
  show ?thesis
    by (simp add: calculate_t_statistic_Fin power2_eq_square s)
qed

lemma round2_23_4: "round2 (23 / 4) = 23 / 4"
proof -
  have "rint (23 / 4 * 100) = 575"
    by (rule rint_near) simp_all
  then show ?thesis by (simp add: round2_def)
qed

lemma rint_sqrt:
  assumes "0 \<le> x" "x\<^sup>2 = y" "(of_int k - 1 / 2)\<^sup>2 < y" "y < (of_int k + 1 / 2)\<^sup>2" "0 < k"
  shows "rint x = k"
proof (rule rint_near)
  have x: "x = sqrt y" using assms(1,2) by (metis real_sqrt_abs abs_of_nonneg)
  have "0 \<le> (of_int k - 1 / 2 :: real)" using assms(5) by simp
  then show "of_int k - 1 / 2 < x"
    unfolding x using assms(3) by (intro real_less_rsqrt) 
  have "0 \<le> (of_int k + 1 / 2 :: real)" using assms(5) by simp
  then show "x < of_int k + 1 / 2"
    unfolding x using assms(4) by (intro real_less_lsqrt) simp_all
qed

lemma t_unrounded_wide8:
  "calculate_t_statistic (Fin (12 / 13)) 8 = Fin (12 / 13 * sqrt (1014 / 25))"
  by (simp add: calculate_t_statistic_Fin power2_eq_square)

lemma round2_t_unrounded_wide8: "round2 (12 / 13 * sqrt (1014 / 25)) = 147 / 25"
proof -
  have "rint (12 / 13 * sqrt (1014 / 25) * 100) = 588"
    by (rule rint_sqrt [where y = 345600]) (simp_all add: power2_eq_square power_mult_distrib algebra_simps)
  then show ?thesis by (simp add: round2_def)
qed

lemma t_pairwise_wide8:
  "calculate_t_statistic (Fin (23 / 25)) 5 = Fin (23 / 25 * sqrt (625 / 32))"
  by (simp add: calculate_t_statistic_Fin power2_eq_square)

lemma round2_t_pairwise_wide8: "round2 (23 / 25 * sqrt (625 / 32)) = 407 / 100"
proof -
  have "rint (23 / 25 * sqrt (625 / 32) * 100) = 407"
    by (rule rint_sqrt [where y = "330625 / 2"]) (simp_all add: power2_eq_square power_mult_distrib algebra_simps)
  then show ?thesis by (simp add: round2_def)
qed

lemma corr_columns_update: "corr (t\<lparr>columns := cs\<rparr>) = corr t"
  by (simp add: corr_def complete_pairs_def fun_eq_iff)

lemma corr_matrix_Inr: "corr_matrix pivoted = Inr cm \<Longrightarrow> cm = corr pivoted"
  by (auto simp: corr_matrix_def select_indicators_def Let_def corr_columns_update
      split: if_splits sum.splits)

lemma collect_Inr:
  "collect f xs = Inr ys \<Longrightarrow>
   length ys = length xs \<and> (\<forall>k < length xs. f (xs ! k) = Inr (ys ! k))"
proof (induction xs arbitrary: ys)
  case Nil
  then show ?case by simp
next
  case (Cons x xs)
  then obtain y ys' where y: "f x = Inr y" "collect f xs = Inr ys'" "ys = y # ys'"
    by (auto split: sum.splits)
  with Cons.IH [of ys'] show ?case
    by (auto simp: nth_Cons split: nat.splits)
qed

lemma relationship_result_fields:
  "res_r (relationship_result cdf cm n (ind1, ind2, d)) = np_round2 (cm ind1 ind2)"
  "t_value (relationship_result cdf cm n (ind1, ind2, d))
     = np_round2 (calculate_t_statistic (np_round2 (cm ind1 ind2)) n)"
  "p_numeric (relationship_result cdf cm n (ind1, ind2, d))
     = get_p_value cdf (calculate_t_statistic (np_round2 (cm ind1 ind2)) n) (n - 2)"
  "Significance (relationship_result cdf cm n (ind1, ind2, d))
     = get_significance
         (get_p_value cdf (calculate_t_statistic (np_round2 (cm ind1 ind2)) n) (n - 2))"
  "Interpretation (relationship_result cdf cm n (ind1, ind2, d))
     = get_strength_description (np_round2 (cm ind1 ind2))
         (get_p_value cdf (calculate_t_statistic (np_round2 (cm ind1 ind2)) n) (n - 2))"
  by (simp_all add: relationship_result_def Let_def np_round2_idem)

lemma detailed_result_fields:
  assumes "detailed_result cdf ppf cm n (ind1, ind2) = Inr row"
  shows "det_r row = np_round2 (cm ind1 ind2)"
    "det_t row = np_round2 (calculate_t_statistic (np_round2 (cm ind1 ind2)) n)"
    "det_p row = get_p_value cdf (calculate_t_statistic (np_round2 (cm ind1 ind2)) n) (n - 2)"
    "det_sig row = get_significance
         (get_p_value cdf (calculate_t_statistic (np_round2 (cm ind1 ind2)) n) (n - 2))"
  using assms
  by (auto simp: detailed_result_def Let_def np_round2_idem split: sum.splits)

text \<open>
  C2.  The sample size of every t-statistic and the degrees of freedom of every p-value, in
  the significance table and in the detailed table, are \<open>len(pivoted)\<close> and
  \<open>len(pivoted) - 2\<close>: the number of rows of the wide table, whatever the pair and however
  many rows have both of its indicators.
\<close>

theorem sample_size_is_row_count:
  "(significance_results cdf pivoted = Inr results \<and> k < length key_relationships
      \<and> key_relationships ! k = (ind1, ind2, d)
    \<longrightarrow> t_value (results ! k)
          = np_round2 (calculate_t_statistic (np_round2 (corr pivoted ind1 ind2))
              (int (length (rows pivoted))))
        \<and> p_numeric (results ! k)
          = get_p_value cdf (calculate_t_statistic (np_round2 (corr pivoted ind1 ind2))
              (int (length (rows pivoted)))) (int (length (rows pivoted)) - 2))
   \<and> (detailed_results cdf ppf pivoted = Inr rs \<and> j < length (upper_pairs corr_indicators)
      \<and> upper_pairs corr_indicators ! j = (i1, i2)
    \<longrightarrow> det_t (rs ! j)
          = np_round2 (calculate_t_statistic (np_round2 (corr pivoted i1 i2))
              (int (length (rows pivoted))))
        \<and> det_p (rs ! j)
          = get_p_value cdf (calculate_t_statistic (np_round2 (corr pivoted i1 i2))
              (int (length (rows pivoted)))) (int (length (rows pivoted)) - 2))"
proof (intro conjI impI; elim conjE)
  assume a: "significance_results cdf pivoted = Inr results" "k < length key_relationships"
    "key_relationships ! k = (ind1, ind2, d)"
  then obtain cm where cm: "corr_matrix pivoted = Inr cm"
    and res: "results = map (relationship_result cdf cm (int (length (rows pivoted)))) key_relationships"
    by (auto simp: significance_results_def split: sum.splits)
  have row: "results ! k = relationship_result (cdf) (corr pivoted) (int (length (rows pivoted))) (ind1, ind2, d)"
    using a(2,3) corr_matrix_Inr [OF cm] by (simp add: res)
  show "t_value (results ! k)
          = np_round2 (calculate_t_statistic (np_round2 (corr pivoted ind1 ind2))
              (int (length (rows pivoted))))"
    by (simp only: row relationship_result_fields)
  show "p_numeric (results ! k)
          = get_p_value cdf (calculate_t_statistic (np_round2 (corr pivoted ind1 ind2))
              (int (length (rows pivoted)))) (int (length (rows pivoted)) - 2)"
    by (simp only: row relationship_result_fields)
next
  assume a: "detailed_results cdf ppf pivoted = Inr rs" "j < length (upper_pairs corr_indicators)"
    "upper_pairs corr_indicators ! j = (i1, i2)"
  then obtain cm where cm: "corr_matrix pivoted = Inr cm"
    and res: "collect (detailed_result cdf ppf cm (int (length (rows pivoted))))
            (upper_pairs corr_indicators) = Inr rs"
    by (auto simp: detailed_results_def split: sum.splits)
  have row: "detailed_result cdf ppf (corr pivoted) (int (length (rows pivoted))) (i1, i2) = Inr (rs ! j)"
    using collect_Inr [OF res] a(2,3) corr_matrix_Inr [OF cm] by auto
  show "det_t (rs ! j)
          = np_round2 (calculate_t_statistic (np_round2 (corr pivoted i1 i2))
              (int (length (rows pivoted))))"
    by (rule detailed_result_fields [OF row])
  show "det_p (rs ! j)
          = get_p_value cdf (calculate_t_statistic (np_round2 (corr pivoted i1 i2))
              (int (length (rows pivoted)))) (int (length (rows pivoted)) - 2)"
    by (rule detailed_result_fields [OF row])
qed

lemma select_indicators_wide8: "select_indicators wide8 = Inr wide8"
  by (simp add: select_indicators_def wide8_def)

lemma significance_results_wide8:
  "\<exists>results. significance_results cdf wide8 = Inr results"
  by (simp add: significance_results_def corr_matrix_def select_indicators_wide8)

lemma dict_get_indicator_names:
  "i \<in> set corr_indicators \<Longrightarrow> \<exists>name. dict_get indicator_names i = Inr name"
  by (auto simp: corr_indicators_def dict_get_def indicator_names_def)

lemma upper_pairs_subset:
  "(a, b) \<in> set (upper_pairs inds) \<Longrightarrow> a \<in> set inds \<and> b \<in> set inds"
  by (auto simp: upper_pairs_def enumerate_eq_zip dest: set_zip_rightD)

lemma collect_total:
  "(\<And>x. x \<in> set xs \<Longrightarrow> \<exists>y. f x = Inr y) \<Longrightarrow> \<exists>ys. collect f xs = Inr ys"
proof (induction xs)
  case Nil
  then show ?case by simp
next
  case (Cons x xs)
  then obtain y ys where "f x = Inr y" "collect f xs = Inr ys"
    by (metis list.set_intros)
  then show ?case by simp
qed

lemma detailed_result_total:
  assumes "i1 \<in> set corr_indicators" "i2 \<in> set corr_indicators"
  shows "\<exists>row. detailed_result cdf ppf cm n (i1, i2) = Inr row"
  using dict_get_indicator_names [OF assms(1)] dict_get_indicator_names [OF assms(2)]
  by (auto simp: detailed_result_def Let_def)

lemma detailed_results_total:
  assumes "corr_matrix pivoted = Inr cm"
  shows "\<exists>rs. detailed_results cdf ppf pivoted = Inr rs"
proof -
  have "\<exists>rs. collect (detailed_result cdf ppf cm (int (length (rows pivoted))))
            (upper_pairs corr_indicators) = Inr rs"
    by (rule collect_total) (auto dest!: upper_pairs_subset intro: detailed_result_total)
  with assms show ?thesis by (simp add: detailed_results_def)
qed

lemma upper_pairs_4: "4 < length (upper_pairs corr_indicators)"
  "upper_pairs corr_indicators ! 4 = (''t5'', ''perf3'')"
  by (simp_all add: upper_pairs_def corr_indicators_def enumerate_eq_zip upt_rec [of 0] upt_rec [of "Suc _"])

lemma key_relationships_9: "9 < length key_relationships"
  "key_relationships ! 9 = (''t5'', ''perf3'', ''Website '' @ arrow @ '' Productivity growth'')"
  by (simp_all add: key_relationships_def)

lemma length_rows_wide8: "length (rows wide8) = 8"
  by (simp add: wide8_def)

lemma reported_t_wide8:
  "np_round2 (calculate_t_statistic (np_round2 (corr wide8 ''t5'' ''perf3''))
      (int (length (rows wide8)))) = Fin (23 / 4)"
  by (simp add: corr_wide8 round2_12_13 length_rows_wide8 t_wide8 round2_23_4)

lemma unrounded_t_wide8:
  "np_round2 (calculate_t_statistic (corr wide8 ''t5'' ''perf3'') (int (length (rows wide8))))
     = Fin (147 / 25)"
  by (simp only: corr_wide8 length_rows_wide8 of_nat_numeral t_unrounded_wide8 np_round2.simps
      round2_t_unrounded_wide8)

lemma pairwise_t_wide8:
  "np_round2 (calculate_t_statistic (Fin (23 / 25)) 5) = Fin (407 / 100)"
  by (simp only: t_pairwise_wide8 np_round2.simps round2_t_pairwise_wide8)

theorem sample_size_is_row_count_witness:
  "length (rows wide8) = 8
   \<and> length (complete_pairs wide8 ''t5'' ''perf3'') = 5
   \<and> (case significance_results student_t1_cdf wide8 of
         Inl e \<Rightarrow> None | Inr results \<Rightarrow> Some (t_value (results ! 9))) = Some (Fin (23 / 4))
   \<and> (case detailed_results student_t1_cdf student_t1_ppf wide8 of
         Inl e \<Rightarrow> None | Inr rs \<Rightarrow> Some (det_t (rs ! 4))) = Some (Fin (23 / 4))
   \<and> np_round2 (calculate_t_statistic (Fin (23 / 25)) 8) = Fin (23 / 4)
   \<and> np_round2 (calculate_t_statistic (Fin (23 / 25)) 5) = Fin (407 / 100)"
proof -
  obtain results where r: "significance_results student_t1_cdf wide8 = Inr results"
    using significance_results_wide8 by blast
  have "corr_matrix wide8 = Inr (corr wide8)"
    by (simp add: corr_matrix_def select_indicators_wide8)
  then obtain rs where d: "detailed_results student_t1_cdf student_t1_ppf wide8 = Inr rs"
    using detailed_results_total by blast
  note inst = sample_size_is_row_count [of student_t1_cdf wide8 results 9 "''t5''" "''perf3''"
      "''Website '' @ arrow @ '' Productivity growth''" student_t1_ppf rs 4 "''t5''" "''perf3''"]
  have 1: "t_value (results ! 9) = Fin (23 / 4)"
    using inst r key_relationships_9 by (simp only: reported_t_wide8)
  have 2: "det_t (rs ! 4) = Fin (23 / 4)"
    using inst d upper_pairs_4 by (simp only: reported_t_wide8)
  show ?thesis
    using 1 2 r d
    by (simp add: complete_pairs_wide8 t_wide8 round2_23_4 pairwise_t_wide8 length_rows_wide8)
qed

text \<open>
  C10.  Every statistic of a row of the significance table and of the detailed table is
  computed from the coefficient rounded to two decimals, and there is a wide table on which
  the reported t-value differs from the (rounded) t-statistic of the unrounded coefficient.
\<close>

theorem statistics_use_rounded_r:
  "(let r2 = np_round2 (cm ind1 ind2);
        t = calculate_t_statistic r2 n;
        p = get_p_value cdf t (n - 2);
        row = relationship_result cdf cm n (ind1, ind2, d)
    in res_r row = r2 \<and> t_value row = np_round2 t \<and> p_numeric row = p
       \<and> Significance row = get_significance p
       \<and> Interpretation row = get_strength_description r2 p)
   \<and> (let r2 = np_round2 (cm ind1 ind2);
          t = calculate_t_statistic r2 n;
          p = get_p_value cdf t (n - 2)
      in \<forall>row. detailed_result cdf ppf cm n (ind1, ind2) = Inr row \<longrightarrow>
           det_r row = r2 \<and> det_t row = np_round2 t \<and> det_p row = p
           \<and> det_sig row = get_significance p)
   \<and> (\<exists>pivoted results k.
         significance_results cdf pivoted = Inr results \<and> k < length key_relationships
         \<and> t_value (results ! k)
             \<noteq> np_round2 (calculate_t_statistic
                   (corr pivoted (fst (key_relationships ! k)) (fst (snd (key_relationships ! k))))
                   (int (length (rows pivoted)))))"
proof -
  have A: "(let r2 = np_round2 (cm ind1 ind2);
        t = calculate_t_statistic r2 n;
        p = get_p_value cdf t (n - 2);
        row = relationship_result cdf cm n (ind1, ind2, d)
    in res_r row = r2 \<and> t_value row = np_round2 t \<and> p_numeric row = p
       \<and> Significance row = get_significance p
       \<and> Interpretation row = get_strength_description r2 p)"
    by (simp add: Let_def relationship_result_fields)
  have B: "(let r2 = np_round2 (cm ind1 ind2);
          t = calculate_t_statistic r2 n;
          p = get_p_value cdf t (n - 2)
      in \<forall>row. detailed_result cdf ppf cm n (ind1, ind2) = Inr row \<longrightarrow>
           det_r row = r2 \<and> det_t row = np_round2 t \<and> det_p row = p
           \<and> det_sig row = get_significance p)"
    by (simp add: Let_def detailed_result_fields)
  obtain results where r: "significance_results cdf wide8 = Inr results"
    using significance_results_wide8 by blast
  then have res: "results = map (relationship_result cdf (corr wide8) (int (length (rows wide8)))) key_relationships"
    by (auto simp: significance_results_def corr_matrix_def select_indicators_wide8)
  have "t_value (results ! 9) = Fin (23 / 4)"
    using key_relationships_9
    by (simp add: res relationship_result_fields reported_t_wide8)
  moreover have "np_round2 (calculate_t_statistic
                   (corr wide8 (fst (key_relationships ! 9)) (fst (snd (key_relationships ! 9))))
                   (int (length (rows wide8)))) = Fin (147 / 25)"
    by (simp only: key_relationships_9 fst_conv snd_conv unrounded_t_wide8)
  ultimately have "t_value (results ! 9) \<noteq> np_round2 (calculate_t_statistic
                   (corr wide8 (fst (key_relationships ! 9)) (fst (snd (key_relationships ! 9))))
                   (int (length (rows wide8))))"
    by simp
  with r key_relationships_9(1) have C: "\<exists>pivoted results k.
         significance_results cdf pivoted = Inr results \<and> k < length key_relationships
         \<and> t_value (results ! k)
             \<noteq> np_round2 (calculate_t_statistic
                   (corr pivoted (fst (key_relationships ! k)) (fst (snd (key_relationships ! k))))
                   (int (length (rows pivoted))))"
    by blast
  from A B C show ?thesis by blast
qed

theorem statistics_use_rounded_r_witness:
  "corr wide8 ''t5'' ''perf3'' = Fin (12 / 13)
   \<and> res_r (relationship_result student_t1_cdf (corr wide8) 8 (''t5'', ''perf3'', ''d''))
       = Fin (23 / 25)
   \<and> t_value (relationship_result student_t1_cdf (corr wide8) 8 (''t5'', ''perf3'', ''d''))
       = Fin (23 / 4)
   \<and> (case detailed_result student_t1_cdf student_t1_ppf (corr wide8) 8 (''t5'', ''perf3'') of
         Inl e \<Rightarrow> None | Inr row \<Rightarrow> Some (det_r row, det_t row))
       = Some (Fin (23 / 25), Fin (23 / 4))
   \<and> np_round2 (calculate_t_statistic (Fin (12 / 13)) 8) = Fin (147 / 25)"
proof -
  note inst = statistics_use_rounded_r [of "corr wide8" "''t5''" "''perf3''" 8 student_t1_cdf
      "''d''" student_t1_ppf]
  have r2: "np_round2 (corr wide8 ''t5'' ''perf3'') = Fin (23 / 25)"
    by (simp add: corr_wide8 round2_12_13)
  have t: "np_round2 (calculate_t_statistic (Fin (23 / 25)) 8) = Fin (23 / 4)"
    by (simp add: t_wide8 round2_23_4)
  have 1: "res_r (relationship_result student_t1_cdf (corr wide8) 8 (''t5'', ''perf3'', ''d''))
       = Fin (23 / 25)"
    and 2: "t_value (relationship_result student_t1_cdf (corr wide8) 8 (''t5'', ''perf3'', ''d''))
       = Fin (23 / 4)"
    using inst by (simp_all add: Let_def r2 t)
  have "''t5'' \<in> set corr_indicators" "''perf3'' \<in> set corr_indicators"
    by (simp_all add: corr_indicators_def)
  from detailed_result_total [OF this]
  obtain row where row: "detailed_result student_t1_cdf student_t1_ppf (corr wide8) 8
      (''t5'', ''perf3'') = Inr row"
    by blast
  with inst have "det_r row = Fin (23 / 25)" "det_t row = Fin (23 / 4)"
    by (simp_all add: Let_def r2 t)
  with row 1 2 show ?thesis
    using unrounded_t_wide8 by (simp add: corr_wide8 length_rows_wide8)
qed

lemma column_values_columns_update: "column_values (t\<lparr>columns := cs\<rparr>) = column_values t"
  by (simp add: column_values_def fun_eq_iff)

lemma corr_sym: "corr t i j = corr t j i"
  by (simp add: corr_def complete_pairs_swap [of t j i] nancorr_swap)

lemma corr_diag:
  "corr t i i =
       (if \<exists>x \<in> set (column_values t i). \<exists>y \<in> set (column_values t i). x \<noteq> y then Fin 1
        else NaN)"
  by (simp only: corr_def complete_pairs_diag nancorr_diag)

lemma round2_1: "round2 1 = 1"
  using rint_of_int [of 100] by (simp add: round2_def)

lemma corr_matrix_display_Inr:
  "corr_matrix_display pivoted = Inr dm \<Longrightarrow> dm = (\<lambda>i j. fillna0 (np_round2 (corr pivoted i j)))"
  by (auto simp: corr_matrix_display_def select_indicators_def Let_def corr_columns_update
      split: if_splits sum.splits)

text \<open>
  C8, as amended.  The correlation matrix is symmetric.  A diagonal entry is \<open>1.0\<close> when the
  column has two different values, and NaN otherwise (a constant column, a column with one
  value or with none); in the displayed matrix of \<open>analyze_data.py\<close> the NaN is \<open>0.0\<close>.
\<close>

theorem corr_matrix_symmetric_diagonal:
  "(corr_matrix pivoted = Inr cm \<longrightarrow>
      cm i j = cm j i
      \<and> cm i i =
          (if \<exists>x \<in> set (column_values pivoted i). \<exists>y \<in> set (column_values pivoted i). x \<noteq> y
           then Fin 1 else NaN))
   \<and> (corr_matrix_display pivoted = Inr dm \<longrightarrow>
      dm i j = dm j i
      \<and> dm i i =
          (if \<exists>x \<in> set (column_values pivoted i). \<exists>y \<in> set (column_values pivoted i). x \<noteq> y
           then Fin 1 else Fin 0))"
proof (intro conjI impI)
  assume "corr_matrix pivoted = Inr cm"
  then have cm: "cm = corr pivoted" by (rule corr_matrix_Inr)
  show "cm i j = cm j i" unfolding cm by (rule corr_sym)
  show "cm i i =
          (if \<exists>x \<in> set (column_values pivoted i). \<exists>y \<in> set (column_values pivoted i). x \<noteq> y
           then Fin 1 else NaN)"
    unfolding cm by (rule corr_diag)
next
  assume "corr_matrix_display pivoted = Inr dm"
  then have dm: "dm = (\<lambda>i j. fillna0 (np_round2 (corr pivoted i j)))"
    by (rule corr_matrix_display_Inr)
  show "dm i j = dm j i" unfolding dm by (simp add: corr_sym [of pivoted i j])
  show "dm i i =
          (if \<exists>x \<in> set (column_values pivoted i). \<exists>y \<in> set (column_values pivoted i). x \<noteq> y
           then Fin 1 else Fin 0)"
    unfolding dm by (simp add: corr_diag round2_1)
qed

lemma column_values_wide8_t5: "column_values wide8 ''t5'' = [0, 1, 1, 2, 3, 4, 5, 6]"
  by (simp add: column_values_def wide8_def wide8_row_def map_filter_simps)

lemma corr_matrix_wide8: "corr_matrix wide8 = Inr (corr wide8)"
  by (simp add: corr_matrix_def select_indicators_wide8)

lemma round2_23_25: "round2 (23 / 25) = 23 / 25"
proof -
  have "rint (23 / 25 * 100) = 92"
    by (rule rint_near) simp_all
  then show ?thesis by (simp add: round2_def)
qed

lemma corr_matrix_display_wide8:
  "corr_matrix_display wide8 = Inr (\<lambda>i j. fillna0 (np_round2 (corr wide8 i j)))"
  by (simp add: corr_matrix_display_def select_indicators_wide8)

theorem corr_matrix_symmetric_diagonal_witness:
  "(case corr_matrix wide8 of
      Inl e \<Rightarrow> None
    | Inr cm \<Rightarrow> Some (cm ''t5'' ''perf3'', cm ''perf3'' ''t5'', cm ''t5'' ''t5''))
     = Some (Fin (12 / 13), Fin (12 / 13), Fin 1)
   \<and> (case corr_matrix_display wide8 of
      Inl e \<Rightarrow> None
    | Inr dm \<Rightarrow> Some (dm ''t5'' ''perf3'', dm ''perf3'' ''t5'', dm ''t5'' ''t5''))
     = Some (Fin (23 / 25), Fin (23 / 25), Fin 1)"
proof -
  note inst = corr_matrix_symmetric_diagonal [of wide8 "corr wide8" "''t5''" "''perf3''"
      "\<lambda>i j. fillna0 (np_round2 (corr wide8 i j))"]
  have "(0::real) \<in> set (column_values wide8 ''t5'')" "(1::real) \<in> set (column_values wide8 ''t5'')"
    by (simp_all add: column_values_wide8_t5)
  then have v: "\<exists>x \<in> set (column_values wide8 ''t5''). \<exists>y \<in> set (column_values wide8 ''t5''). x \<noteq> y"
    by (intro bexI [of _ "0::real"] bexI [of _ "1::real"]) simp_all
  have 1: "corr wide8 ''perf3'' ''t5'' = Fin (12 / 13)" "corr wide8 ''t5'' ''t5'' = Fin 1"
    using inst corr_matrix_wide8 v corr_wide8 by simp_all
  have 2: "fillna0 (np_round2 (corr wide8 ''perf3'' ''t5'')) = Fin (23 / 25)"
    "fillna0 (np_round2 (corr wide8 ''t5'' ''t5'')) = Fin 1"
    using inst corr_matrix_display_wide8 v corr_wide8 by (simp_all add: round2_12_13)
  show ?thesis
    using 1 2 by (simp add: corr_matrix_wide8 corr_matrix_display_wide8 corr_wide8 round2_12_13)
qed

lemma select_indicators_wide_const: "select_indicators wide_const = Inr wide_const"
  by (simp add: select_indicators_def wide_const_def)

lemma column_values_wide_const: "column_values wide_const ''t5'' = [40, 40, 40]"
  by (simp add: column_values_def wide_const_def wide8_row_def map_filter_simps)

text \<open>
  The claim as stated fails on a table whose column \<open>t5\<close> is constant: the diagonal entry
  is NaN in the matrix and \<open>0.0\<close> in the displayed matrix.
\<close>

theorem constant_column_diagonal_counterexample:
  "column_values wide_const ''t5'' = [40, 40, 40]
   \<and> (case corr_matrix wide_const of Inl e \<Rightarrow> None | Inr cm \<Rightarrow> Some (cm ''t5'' ''t5'')) = Some NaN
   \<and> (case corr_matrix_display wide_const of Inl e \<Rightarrow> None | Inr dm \<Rightarrow> Some (dm ''t5'' ''t5''))
       = Some (Fin 0)"
  by (simp add: corr_matrix_def corr_matrix_display_def select_indicators_wide_const corr_diag
      column_values_wide_const)

end
